theory Spec2Isabelle
  imports Main "HOL-Library.Word"
begin

section \<open>JavaScript strings\<close>

text \<open>
  A JavaScript string is a sequence of UTF-16 code units. String literals of the
  source that are plain ASCII are written \<open>js ''...''\<close>.
\<close>

type_synonym jschar = "16 word"
type_synonym jsstring = "jschar list"

definition js :: "string \<Rightarrow> jsstring" where
  "js s = map of_char s"

definition LF :: jschar where
  "LF = 0x000A"

text \<open>
  The code units removed by \<open>String.prototype.trim\<close> and skipped by \<open>parseInt\<close>:
  ECMAScript WhiteSpace (TAB, VT, FF, ZWNBSP and the Unicode category Zs) and
  LineTerminator (LF, CR, LS, PS).
\<close>

definition isWhiteSpace :: "jschar \<Rightarrow> bool" where
  "isWhiteSpace c \<longleftrightarrow>
     c \<in> {0x0009, 0x000A, 0x000B, 0x000C, 0x000D, 0x0020, 0x00A0, 0x1680,
           0x2028, 0x2029, 0x202F, 0x205F, 0x3000, 0xFEFF}
     \<or> (0x2000 \<le> c \<and> c \<le> 0x200A)"

definition str_trim :: "jsstring \<Rightarrow> jsstring" where
  "str_trim s = rev (dropWhile isWhiteSpace (rev (dropWhile isWhiteSpace s)))"

text \<open>\<open>s.split("\n")\<close>: always at least one piece; the separators are dropped.\<close>

fun str_split :: "jsstring \<Rightarrow> jsstring list" where
  "str_split [] = [[]]"
| "str_split (c # cs) =
     (if c = LF then [] # str_split cs
      else (case str_split cs of
              [] \<Rightarrow> [[c]]
            | l # ls \<Rightarrow> (c # l) # ls))"

definition str_startsWith :: "jsstring \<Rightarrow> jsstring \<Rightarrow> bool" where
  "str_startsWith s p \<longleftrightarrow> take (length p) s = p"

definition str_endsWith :: "jsstring \<Rightarrow> jsstring \<Rightarrow> bool" where
  "str_endsWith s p \<longleftrightarrow> length p \<le> length s \<and> drop (length s - length p) s = p"

fun str_includes :: "jsstring \<Rightarrow> jsstring \<Rightarrow> bool" where
  "str_includes [] p = (p = [])"
| "str_includes (c # cs) p = (str_startsWith (c # cs) p \<or> str_includes cs p)"

text \<open>
  \<open>parseInt(s, 10)\<close>: leading white space is skipped, one sign is read, then the
  longest run of decimal digits; no digit gives NaN (\<open>None\<close>). The source compares
  the result only with array lengths, which are below \<open>2^53\<close>, so the rounding of
  larger values to a double does not change any comparison and the value is kept
  as an exact integer.
\<close>

definition isDigit :: "jschar \<Rightarrow> bool" where
  "isDigit c \<longleftrightarrow> 0x0030 \<le> c \<and> c \<le> 0x0039"

definition digitsValue :: "jsstring \<Rightarrow> int" where
  "digitsValue ds = foldl (\<lambda>acc c. 10 * acc + (uint c - 48)) 0 ds"

definition parseInt10 :: "jsstring \<Rightarrow> int option" where
  "parseInt10 s =
     (let S = dropWhile isWhiteSpace s;
          sign = (case S of c # _ \<Rightarrow> (if c = 0x002D then - 1 else 1) | [] \<Rightarrow> (1::int));
          S' = (case S of c # cs \<Rightarrow> (if c = 0x002B \<or> c = 0x002D then cs else S) | [] \<Rightarrow> S);
          Z = takeWhile isDigit S'
      in if Z = [] then None else Some (sign * digitsValue Z))"


section \<open>Collaborators and observable events\<close>

text \<open>
  The \<open>Error\<close> that a rejected \<open>model.generateContent\<close> or a throwing
  \<open>response.text()\<close> raises: its rendering in the diagnostic and the optional
  \<open>error.response.promptFeedback\<close>. A response without text is \<open>Text []\<close>.
\<close>

record gen_error =
  description :: jsstring
  promptFeedback :: "jsstring option"

datatype gen_response = Throws gen_error | Text jsstring

text \<open>
  The world outside the script. \<open>'r\<close> is the state of the repository. The
  read-only git operations are functions of that state; \<open>commit\<close> may change it
  and either succeeds or rejects with an error message. \<open>toLowerCase\<close> is
  \<open>String.prototype.toLowerCase\<close>, whose Unicode case table belongs to the
  runtime.
\<close>

record 'r env =
  toLowerCase :: "jsstring \<Rightarrow> jsstring"
  revparse :: "'r \<Rightarrow> bool"
  diff_cached :: "'r \<Rightarrow> jsstring + jsstring"
  status_staged :: "'r \<Rightarrow> jsstring + nat"
  commit :: "'r \<Rightarrow> jsstring \<Rightarrow> jsstring list \<Rightarrow> jsstring option \<times> 'r"
  generateContent :: "jsstring \<Rightarrow> gen_response"

text \<open>
  Console output: one constructor for each message that a run can print, named
  after its text.
  \<^item> \<open>getStagedChanges\<close>: \<open>NotAGitRepository\<close> (Direktori ini bukan repositori Git),
    \<open>ErrorFetchingChanges\<close> (Error saat mengambil perubahan, with the message).
  \<^item> \<open>generateCommitMessage\<close>: \<open>ContactingGemini\<close> (Menghubungi Gemini AI),
    \<open>FormatMismatchWarning\<close> (Saran dari Gemini mungkin tidak sepenuhnya sesuai format),
    \<open>NoProcessableSuggestions\<close> (Gemini tidak memberikan saran yang dapat diproses),
    \<open>NoTextResponse\<close> (Gemini tidak memberikan respons teks),
    \<open>GeminiError\<close> (Error saat menghubungi Gemini API, with the error),
    \<open>PromptFeedback\<close> (Prompt feedback).
  \<^item> \<open>commitChanges\<close>: \<open>NothingStagedWarning\<close> (Tidak ada perubahan yang di-stage
    untuk di-commit), \<open>UseGitAddHint\<close> (Gunakan git add), \<open>SigningWithGpg\<close>
    (Melakukan commit dengan tanda tangan GPG), \<open>PlainCommit\<close> (Melakukan commit
    biasa), \<open>CommitSucceeded\<close> (Berhasil melakukan commit, with the message and
    whether it was signed), \<open>NothingToCommitInfo\<close> and \<open>EnsureGitAddInfo\<close> (the two
    lines of the first branch of the \<open>catch\<close> block), \<open>GpgSigningError\<close>,
    \<open>GpgConfigHint\<close> and \<open>GpgAgentHint\<close> (the three lines of its second branch),
    \<open>GitCommitError\<close> (Error Git saat melakukan commit, with the message).
  \<^item> \<open>selectAndCommit\<close>: \<open>NoValidSuggestions\<close> (Tidak ada saran commit yang valid
    dihasilkan), \<open>EmptyMessageCancelled\<close> (Pesan commit tidak boleh kosong. Commit
    dibatalkan.), \<open>SuggestionsHeader\<close>, \<open>SuggestionLine\<close>, \<open>ManualOption\<close> and
    \<open>CancelOption\<close> (the menu), \<open>YouChose\<close> (Anda memilih), \<open>EmptyMessageRetry\<close>
    (Pesan commit tidak boleh kosong. Coba lagi atau batalkan.), \<open>CommitCancelled\<close>
    (Commit dibatalkan.), \<open>InvalidChoice\<close> (Pilihan tidak valid.),
    \<open>CancelledByUser\<close> (Commit dibatalkan oleh pengguna.).
  \<^item> \<open>main\<close>: \<open>SearchingStagedChanges\<close>, \<open>ChangesDetected\<close>,
    \<open>NoStagedChangesToProcess\<close>.
\<close>

datatype console_message =
    NotAGitRepository
  | ErrorFetchingChanges jsstring
  | ContactingGemini
  | FormatMismatchWarning
  | NoProcessableSuggestions
  | NoTextResponse
  | GeminiError jsstring
  | PromptFeedback jsstring
  | NothingStagedWarning
  | UseGitAddHint
  | SigningWithGpg
  | PlainCommit
  | CommitSucceeded jsstring bool
  | NothingToCommitInfo
  | EnsureGitAddInfo
  | GpgSigningError
  | GpgConfigHint
  | GpgAgentHint
  | GitCommitError jsstring
  | NoValidSuggestions
  | EmptyMessageCancelled
  | SuggestionsHeader
  | SuggestionLine nat jsstring
  | ManualOption nat
  | CancelOption nat
  | YouChose jsstring
  | EmptyMessageRetry
  | CommitCancelled
  | InvalidChoice
  | CancelledByUser
  | SearchingStagedChanges
  | ChangesDetected
  | NoStagedChangesToProcess

text \<open>
  The questions put to the operator through \<open>askQuestion\<close>: whether to write a
  message by hand, the message written by hand, the option of the menu (with the
  number of options shown), the confirmation of a message, and whether to sign.
\<close>

datatype prompt =
    AskUseManual
  | AskManualMessage
  | AskChoice nat
  | AskConfirm jsstring
  | AskSign

text \<open>
  A run is observed as the list of its events, in order. The operator's answers
  are a finite list; a question with no answer left blocks the run, which shows
  as a final \<open>Awaiting\<close>.
\<close>

datatype event =
    Print console_message
  | Asked prompt jsstring
  | Awaiting prompt
  | GitRevparse
  | GitDiffCached
  | GitStatus
  | GitCommit jsstring "jsstring list"
  | GenerateContent jsstring
  | RlClose


section \<open>getStagedChanges\<close>

definition getStagedChanges :: "'r env \<Rightarrow> 'r \<Rightarrow> event list \<times> jsstring option" where
  "getStagedChanges E r =
     (if \<not> revparse E r then ([GitRevparse, Print NotAGitRepository], None)
      else (case diff_cached E r of
              Inr diffOutput \<Rightarrow>
                (if diffOutput = [] then ([GitRevparse, GitDiffCached], None)
                 else ([GitRevparse, GitDiffCached], Some diffOutput))
            | Inl msg \<Rightarrow>
                (if str_includes msg (js ''not a git repository'')
                    \<or> str_includes msg (js ''Direktori ini bukan repositori Git'')
                 then ([GitRevparse, GitDiffCached, Print NotAGitRepository], None)
                 else ([GitRevparse, GitDiffCached, Print (ErrorFetchingChanges msg)], None))))"


section \<open>generateCommitMessage\<close>

definition promptHead :: jsstring where
  "promptHead = js
     (''\<newline>''
      @ ''    Anda adalah asisten yang ahli dalam menulis pesan commit mengikuti standar Conventional Commits.\<newline>''
      @ ''    Berdasarkan perubahan kode (git diff) berikut, yang mungkin mencakup beberapa file dan konteks berbeda, berikan persis 3 saran pesan commit.\<newline>''
      @ ''    Setiap saran harus berada di baris baru dan HANYA berisi pesan commit itu sendiri, tanpa nomor, tanpa backtick di awal atau akhir pesan, atau teks tambahan lainnya.\<newline>''
      @ ''\<newline>''
      @ ''    Format setiap pesan commit sebagai: <type>(<scope>): <subject>\<newline>''
      @ ''\<newline>''
      @ ''    Contoh bagaimana ANDA HARUS memformat output (masing-masing di baris baru, TANPA nomor atau backtick):\<newline>''
      @ ''    feat(auth): implement JWT authentication\<newline>''
      @ ''    fix(ui): resolve button alignment issue\<newline>''
      @ ''    docs(readme): update setup instructions\<newline>''
      @ ''\<newline>''
      @ ''    Perubahan Kode (Git Diff):\<newline>''
      @ ''    ```diff\<newline>''
      @ ''    '')"

definition promptTail :: jsstring where
  "promptTail = js
     (''\<newline>''
      @ ''    ```\<newline>''
      @ ''\<newline>''
      @ ''    Saran Pesan Commit (HANYA 3 pesan commit, masing-masing di baris baru, tanpa penomoran atau karakter ``` di awal/akhir):\<newline>''
      @ ''    '')"

definition buildPrompt :: "jsstring \<Rightarrow> jsstring" where
  "buildPrompt diffText = promptHead @ diffText @ promptTail"

text \<open>
  \<open>suggestions\<close>: the response trimmed, split at line feeds, every piece trimmed,
  empty pieces dropped.
\<close>

definition suggestions :: "jsstring \<Rightarrow> jsstring list" where
  "suggestions rawText =
     filter (\<lambda>s. s \<noteq> []) (map str_trim (str_split (str_trim rawText)))"

definition fence :: jsstring where
  "fence = js ''```''"

definition isValidSuggestion :: "jsstring \<Rightarrow> bool" where
  "isValidSuggestion s \<longleftrightarrow>
     str_includes s (js '':'') \<and> str_includes s (js ''('') \<and> str_includes s (js '')'')
     \<and> \<not> str_startsWith s fence \<and> \<not> str_endsWith s fence"

definition validSuggestions :: "jsstring \<Rightarrow> jsstring list" where
  "validSuggestions rawText = filter isValidSuggestion (suggestions rawText)"

text \<open>
  The result is \<open>null\<close> (\<open>None\<close>) or an array of strings. The events show the
  single call of \<open>model.generateContent\<close> and every diagnostic printed.
\<close>

definition generateCommitMessage ::
  "'r env \<Rightarrow> jsstring \<Rightarrow> event list \<times> jsstring list option" where
  "generateCommitMessage E diffText =
     (if diffText = [] then ([], None)
      else
        (let prompt = buildPrompt diffText;
             called = [Print ContactingGemini, GenerateContent prompt]
         in case generateContent E prompt of
              Text rawText \<Rightarrow>
                (if rawText \<noteq> [] then
                   (if validSuggestions rawText = [] \<and> suggestions rawText \<noteq> []
                    then (called @ [Print FormatMismatchWarning], Some (suggestions rawText))
                    else if suggestions rawText = []
                    then (called @ [Print NoProcessableSuggestions], None)
                    else (called, Some (validSuggestions rawText)))
                 else (called @ [Print NoTextResponse], None))
            | Throws err \<Rightarrow>
                (called @ [Print (GeminiError (description err))]
                   @ (case promptFeedback err of
                        None \<Rightarrow> []
                      | Some fb \<Rightarrow> [Print (PromptFeedback fb)]),
                 None)))"


text \<open>
  The parsing policy in the words of the specification, to compare the source
  with: the response is split at line breaks, every line is trimmed and blank
  lines are discarded (\<open>rawLines\<close>); of these, the lines that contain a colon and
  both parentheses and neither start nor end with a triple backtick are kept
  (\<open>validCandidates\<close>).
\<close>

definition spec_rawLines :: "jsstring \<Rightarrow> jsstring list" where
  "spec_rawLines response = filter (\<lambda>l. l \<noteq> []) (map str_trim (str_split response))"

definition spec_validCandidates :: "jsstring \<Rightarrow> jsstring list" where
  "spec_validCandidates response =
     filter (\<lambda>l. str_includes l (js '':'') \<and> str_includes l (js ''('')
                 \<and> str_includes l (js '')'')
                 \<and> \<not> str_startsWith l (js ''```'') \<and> \<not> str_endsWith l (js ''```''))
       (spec_rawLines response)"

text \<open>The requests sent to the text generator among the events of a run.\<close>

fun isGenerateContent :: "event \<Rightarrow> bool" where
  "isGenerateContent (GenerateContent p) = True"
| "isGenerateContent e = False"

text \<open>
  The candidate sequence a result of \<open>generateCommitMessage\<close> stands for: \<open>null\<close>
  is no candidate.
\<close>

fun candidateSequence :: "jsstring list option \<Rightarrow> jsstring list" where
  "candidateSequence None = []"
| "candidateSequence (Some sugg) = sugg"


section \<open>commitChanges\<close>

text \<open>
  The source returns nothing on every path of \<open>commitChanges\<close>; what the operator
  sees is the diagnostic of the branch taken. The result names that branch.
\<close>

datatype CommitResult = Success | NothingToCommit | SigningFailed | OtherFailure jsstring

text \<open>The \<open>catch\<close> block: the classification of a rejection by its message.\<close>

definition classifyCommitError ::
  "'r env \<Rightarrow> bool \<Rightarrow> jsstring \<Rightarrow> CommitResult \<times> event list" where
  "classifyCommitError E useGpgSign msg =
     (let errorMessage = toLowerCase E msg
      in if str_includes errorMessage (js ''nothing to commit'')
            \<or> str_includes errorMessage (js ''no changes added to commit'')
            \<or> str_includes errorMessage (js ''changes not staged for commit'')
         then (NothingToCommit, [Print NothingToCommitInfo, Print EnsureGitAddInfo])
         else if useGpgSign
                 \<and> (str_includes errorMessage (js ''gpg failed to sign the data'')
                      \<or> str_includes errorMessage (js ''no default secret key''))
         then (SigningFailed, [Print GpgSigningError, Print GpgConfigHint, Print GpgAgentHint])
         else (OtherFailure msg, [Print (GitCommitError msg)]))"

text \<open>From \<open>commitOptions\<close> to the success message: the call of \<open>git.commit\<close>.\<close>

definition runCommit ::
  "'r env \<Rightarrow> 'r \<Rightarrow> jsstring \<Rightarrow> bool \<Rightarrow> CommitResult \<times> event list \<times> 'r" where
  "runCommit E r message useGpgSign =
     (let commitOptions = (if useGpgSign then [js ''-S''] else []);
          announced = [Print (if useGpgSign then SigningWithGpg else PlainCommit),
                       GitCommit message commitOptions]
      in case commit E r message commitOptions of
           (None, r') \<Rightarrow>
             (Success, announced @ [Print (CommitSucceeded message useGpgSign)], r')
         | (Some msg, r') \<Rightarrow>
             (case classifyCommitError E useGpgSign msg of
                (res, out) \<Rightarrow> (res, announced @ out, r')))"

definition commitChanges ::
  "'r env \<Rightarrow> 'r \<Rightarrow> jsstring \<Rightarrow> bool \<Rightarrow> CommitResult \<times> event list \<times> 'r" where
  "commitChanges E r message useGpgSign =
     (case status_staged E r of
        Inl msg \<Rightarrow>
          (case classifyCommitError E useGpgSign msg of
             (res, out) \<Rightarrow> (res, GitStatus # out, r))
      | Inr staged_length \<Rightarrow>
          (if staged_length > 0 then
             (case runCommit E r message useGpgSign of
                (res, out, r') \<Rightarrow> (res, GitStatus # out, r'))
           else
             (case diff_cached E r of
                Inl msg \<Rightarrow>
                  (case classifyCommitError E useGpgSign msg of
                     (res, out) \<Rightarrow> (res, GitStatus # GitDiffCached # out, r))
              | Inr stagedDiff \<Rightarrow>
                  (if stagedDiff = [] then
                     (NothingToCommit,
                      [GitStatus, GitDiffCached, Print NothingStagedWarning, Print UseGitAddHint],
                      r)
                   else
                     (case runCommit E r message useGpgSign of
                        (res, out, r') \<Rightarrow> (res, GitStatus # GitDiffCached # out, r'))))))"


text \<open>
  The rejection that \<open>commitChanges\<close> catches, if there is one: of \<open>git.status\<close>,
  of \<open>git.diff\<close> when it is called, or of \<open>git.commit\<close> when it is called.
\<close>

definition rejection :: "'r env \<Rightarrow> 'r \<Rightarrow> jsstring \<Rightarrow> bool \<Rightarrow> jsstring option" where
  "rejection E r message useGpgSign =
     (case status_staged E r of
        Inl msg \<Rightarrow> Some msg
      | Inr staged_length \<Rightarrow>
          (if staged_length > 0
           then fst (commit E r message (if useGpgSign then [js ''-S''] else []))
           else (case diff_cached E r of
                   Inl msg \<Rightarrow> Some msg
                 | Inr stagedDiff \<Rightarrow>
                     (if stagedDiff = [] then None
                      else fst (commit E r message (if useGpgSign then [js ''-S''] else []))))))"


section \<open>selectAndCommit\<close>

text \<open>
  The \<open>while (true)\<close> loop over the numbered menu. Every round reads at least one
  answer, so the loop is a recursion on the answers still unread. \<open>Some (m, rest)\<close>
  is the \<open>break\<close> with \<open>commitMessage = m\<close> and the answers not yet read; \<open>None\<close>
  is the \<open>return\<close> of the cancel option, or a run blocked on a question. A
  \<open>NaN\<close> from \<open>parseInt\<close> fails every comparison and ends in the last \<open>else\<close>.
  Nothing inside the \<open>try\<close> of the loop throws, so its \<open>catch\<close> is never entered.
\<close>

fun chooseLoop ::
  "jsstring list \<Rightarrow> jsstring list \<Rightarrow> event list \<times> (jsstring \<times> jsstring list) option" where
  "chooseLoop sugg [] = ([Awaiting (AskChoice (length sugg + 2))], None)"
| "chooseLoop sugg (choiceStr # rest) =
     (let asked = Asked (AskChoice (length sugg + 2)) choiceStr
      in case parseInt10 choiceStr of
           None \<Rightarrow>
             (case chooseLoop sugg rest of
                (ev, res) \<Rightarrow> (asked # Print InvalidChoice # ev, res))
         | Some choice \<Rightarrow>
             (if 1 \<le> choice \<and> choice \<le> int (length sugg)
              then ([asked, Print (YouChose (sugg ! nat (choice - 1)))],
                    Some (sugg ! nat (choice - 1), rest))
              else if choice = int (length sugg) + 1
              then (case rest of
                      [] \<Rightarrow> ([asked, Awaiting AskManualMessage], None)
                    | manualMessage # rest' \<Rightarrow>
                        (if str_trim manualMessage \<noteq> []
                         then ([asked, Asked AskManualMessage manualMessage],
                               Some (str_trim manualMessage, rest'))
                         else (case chooseLoop sugg rest' of
                                 (ev, res) \<Rightarrow>
                                   (asked # Asked AskManualMessage manualMessage
                                      # Print EmptyMessageRetry # ev, res))))
              else if choice = int (length sugg) + 2
              then ([asked, Print CommitCancelled], None)
              else (case chooseLoop sugg rest of
                      (ev, res) \<Rightarrow> (asked # Print InvalidChoice # ev, res))))"

text \<open>The menu printed before the loop.\<close>

definition menu :: "jsstring list \<Rightarrow> event list" where
  "menu sugg =
     Print SuggestionsHeader
       # map (\<lambda>(i, s). Print (SuggestionLine (i + 1) s)) (enumerate 0 sugg)
       @ [Print (ManualOption (length sugg + 1)), Print (CancelOption (length sugg + 2))]"

text \<open>
  The branch for no suggestions: a yes/no question, then one manual message.
\<close>

definition manualFallback ::
  "'r env \<Rightarrow> jsstring list \<Rightarrow> event list \<times> (jsstring \<times> jsstring list) option" where
  "manualFallback E answers =
     (case answers of
        [] \<Rightarrow> ([Print NoValidSuggestions, Awaiting AskUseManual], None)
      | useManual # rest \<Rightarrow>
          (if toLowerCase E useManual = js ''y'' then
             (case rest of
                [] \<Rightarrow>
                  ([Print NoValidSuggestions, Asked AskUseManual useManual,
                    Awaiting AskManualMessage], None)
              | manualMessage # rest' \<Rightarrow>
                  (if str_trim manualMessage \<noteq> []
                   then ([Print NoValidSuggestions, Asked AskUseManual useManual,
                          Asked AskManualMessage manualMessage],
                         Some (str_trim manualMessage, rest'))
                   else ([Print NoValidSuggestions, Asked AskUseManual useManual,
                          Asked AskManualMessage manualMessage,
                          Print EmptyMessageCancelled], None)))
           else ([Print NoValidSuggestions, Asked AskUseManual useManual], None)))"

text \<open>
  The first half of \<open>selectAndCommit\<close>, up to the end of the \<open>if/else\<close> that
  settles \<open>commitMessage\<close>. The argument \<open>None\<close> is \<open>null\<close>. The result
  \<open>Some (m, rest)\<close> is control reaching \<open>if (commitMessage)\<close> with
  \<open>commitMessage = m\<close>; \<open>None\<close> is a \<open>return\<close> or a blocked run.
\<close>

definition chooseMessage ::
  "'r env \<Rightarrow> jsstring list option \<Rightarrow> jsstring list
     \<Rightarrow> event list \<times> (jsstring \<times> jsstring list) option" where
  "chooseMessage E suggs answers =
     (case suggs of
        None \<Rightarrow> manualFallback E answers
      | Some sugg \<Rightarrow>
          (if sugg = [] then manualFallback E answers
           else (case chooseLoop sugg answers of
                   (ev, res) \<Rightarrow> (menu sugg @ ev, res))))"

record CommitRequest =
  message :: jsstring
  sign :: bool

text \<open>
  The second half, from \<open>if (commitMessage)\<close> on, without the call of
  \<open>commitChanges\<close>: the request it is called with, if it is called.
\<close>

definition confirm ::
  "'r env \<Rightarrow> jsstring \<Rightarrow> jsstring list \<Rightarrow> event list \<times> CommitRequest option" where
  "confirm E commitMessage answers =
     (if commitMessage \<noteq> [] then
        (case answers of
           [] \<Rightarrow> ([Awaiting (AskConfirm commitMessage)], None)
         | confirmCommit # rest \<Rightarrow>
             (if toLowerCase E confirmCommit = js ''y'' then
                (case rest of
                   [] \<Rightarrow>
                     ([Asked (AskConfirm commitMessage) confirmCommit, Awaiting AskSign], None)
                 | signCommitChoice # _ \<Rightarrow>
                     ([Asked (AskConfirm commitMessage) confirmCommit,
                       Asked AskSign signCommitChoice],
                      Some \<lparr>message = commitMessage,
                            sign = (toLowerCase E signCommitChoice = js ''y'')\<rparr>))
              else ([Asked (AskConfirm commitMessage) confirmCommit, Print CancelledByUser],
                    None)))
      else ([], None))"

text \<open>All of \<open>selectAndCommit\<close> but the call of \<open>commitChanges\<close>.\<close>

definition selection ::
  "'r env \<Rightarrow> jsstring list option \<Rightarrow> jsstring list \<Rightarrow> event list \<times> CommitRequest option" where
  "selection E suggs answers =
     (case chooseMessage E suggs answers of
        (ev, None) \<Rightarrow> (ev, None)
      | (ev, Some (commitMessage, rest)) \<Rightarrow>
          (case confirm E commitMessage rest of
             (ev', req) \<Rightarrow> (ev @ ev', req)))"

definition selectAndCommit ::
  "'r env \<Rightarrow> 'r \<Rightarrow> jsstring list option \<Rightarrow> jsstring list \<Rightarrow> event list \<times> 'r" where
  "selectAndCommit E r suggs answers =
     (case selection E suggs answers of
        (ev, None) \<Rightarrow> (ev, r)
      | (ev, Some req) \<Rightarrow>
          (case commitChanges E r (message req) (sign req) of
             (res, ev', r') \<Rightarrow> (ev @ ev', r')))"


text \<open>
  The events of the first half of \<open>selectAndCommit\<close>: console lines and the
  questions that come before the confirmation.
\<close>

fun beforeConfirm :: "event \<Rightarrow> bool" where
  "beforeConfirm (Print line) = True"
| "beforeConfirm (Asked p a) = (case p of AskConfirm m \<Rightarrow> False | AskSign \<Rightarrow> False | _ \<Rightarrow> True)"
| "beforeConfirm (Awaiting p) = (case p of AskConfirm m \<Rightarrow> False | AskSign \<Rightarrow> False | _ \<Rightarrow> True)"
| "beforeConfirm e = False"


section \<open>main\<close>

text \<open>A run that is blocked on a question never reaches \<open>rl.close()\<close>.\<close>

fun isAwaiting :: "event \<Rightarrow> bool" where
  "isAwaiting (Awaiting p) = True"
| "isAwaiting e = False"

definition main :: "'r env \<Rightarrow> 'r \<Rightarrow> jsstring list \<Rightarrow> event list \<times> 'r" where
  "main E r answers =
     (case getStagedChanges E r of
        (ev, diff) \<Rightarrow>
          (let nothingToProcess =
                 (Print SearchingStagedChanges # ev @ [Print NoStagedChangesToProcess, RlClose], r)
           in case diff of
                None \<Rightarrow> nothingToProcess
              | Some diffText \<Rightarrow>
                  (if diffText \<noteq> [] then
                     (case generateCommitMessage E diffText of
                        (ev', suggs) \<Rightarrow>
                          (case selectAndCommit E r suggs answers of
                             (ev'', r') \<Rightarrow>
                               (Print SearchingStagedChanges # ev @ [Print ChangesDetected]
                                  @ ev' @ ev''
                                  @ (if list_ex isAwaiting ev'' then [] else [RlClose]),
                                r')))
                   else nothingToProcess)))"


section \<open>A small world to run the script in\<close>

text \<open>
  A repository with one staged diff, a log of commits and possibly a signing key;
  a generator with a fixed response; lower-casing of the Basic Latin letters,
  where it agrees with \<open>String.prototype.toLowerCase\<close>.
\<close>

record repo =
  indexDiff :: jsstring
  commits :: "(jsstring \<times> jsstring list) list"
  signingKey :: bool

definition asciiLower :: "jsstring \<Rightarrow> jsstring" where
  "asciiLower s = map (\<lambda>c. if 0x0041 \<le> c \<and> c \<le> 0x005A then c + 0x0020 else c) s"

definition sampleCommit :: "repo \<Rightarrow> jsstring \<Rightarrow> jsstring list \<Rightarrow> jsstring option \<times> repo" where
  "sampleCommit r msg opts =
     (if indexDiff r = [] then (Some (js ''nothing to commit, working tree clean''), r)
      else if opts = [js ''-S''] \<and> \<not> signingKey r
      then (Some (js ''error: gpg failed to sign the data''), r)
      else (None, r\<lparr>indexDiff := [], commits := commits r @ [(msg, opts)]\<rparr>))"

definition sampleEnv :: "gen_response \<Rightarrow> repo env" where
  "sampleEnv response =
     \<lparr>toLowerCase = asciiLower,
      revparse = (\<lambda>r. True),
      diff_cached = (\<lambda>r. Inr (indexDiff r)),
      status_staged = (\<lambda>r. Inr (if indexDiff r = [] then 0 else 1)),
      commit = sampleCommit,
      generateContent = (\<lambda>prompt. response)\<rparr>"

text \<open>The same world with a git whose \<open>commit\<close> is always rejected with one message.\<close>

definition rejectAll :: "jsstring \<Rightarrow> repo \<Rightarrow> jsstring \<Rightarrow> jsstring list \<Rightarrow> jsstring option \<times> repo" where
  "rejectAll msg r m opts = (Some msg, r)"

definition failingEnv :: "jsstring \<Rightarrow> repo env" where
  "failingEnv msg = (sampleEnv (Text []))\<lparr>commit := rejectAll msg\<rparr>"


section \<open>The string operations\<close>

text \<open>
  \<open>startsWith\<close>, \<open>includes\<close> and \<open>endsWith\<close> as computed above are what they are
  meant to be: a prefix, a contiguous part, a suffix.
\<close>

lemma str_startsWith_iff: "str_startsWith s p \<longleftrightarrow> (\<exists>b. s = p @ b)"
proof
  assume "str_startsWith s p"
  then have "s = p @ drop (length p) s"
    unfolding str_startsWith_def by (metis append_take_drop_id)
  then show "\<exists>b. s = p @ b" ..
next
  assume "\<exists>b. s = p @ b"
  then show "str_startsWith s p" by (auto simp: str_startsWith_def)
qed

lemma str_includes_iff: "str_includes s p \<longleftrightarrow> (\<exists>a b. s = a @ p @ b)"
proof (induction s)
  case Nil
  then show ?case by auto
next
  case (Cons c cs)
  show ?case
  proof
    assume "str_includes (c # cs) p"
    then consider "str_startsWith (c # cs) p" | "str_includes cs p" by auto
    then show "\<exists>a b. c # cs = a @ p @ b"
    proof cases
      case 1
      then obtain b where "c # cs = p @ b" unfolding str_startsWith_iff ..
      then have "c # cs = [] @ p @ b" by simp
      then show ?thesis by blast
    next
      case 2
      then obtain a b where "cs = a @ p @ b" using Cons.IH by blast
      then have "c # cs = (c # a) @ p @ b" by simp
      then show ?thesis by blast
    qed
  next
    assume "\<exists>a b. c # cs = a @ p @ b"
    then obtain a b where ab: "c # cs = a @ p @ b" by blast
    show "str_includes (c # cs) p"
    proof (cases a)
      case Nil
      with ab have "str_startsWith (c # cs) p" unfolding str_startsWith_iff by auto
      then show ?thesis by simp
    next
      case (Cons x a')
      with ab have "cs = a' @ p @ b" by simp
      then have "str_includes cs p" using Cons.IH by blast
      then show ?thesis by simp
    qed
  qed
qed

lemma str_endsWith_iff: "str_endsWith s p \<longleftrightarrow> (\<exists>a. s = a @ p)"
proof
  assume "str_endsWith s p"
  then have "s = take (length s - length p) s @ p"
    unfolding str_endsWith_def by (metis append_take_drop_id)
  then show "\<exists>a. s = a @ p" ..
next
  assume "\<exists>a. s = a @ p"
  then show "str_endsWith s p" by (auto simp: str_endsWith_def)
qed


section \<open>Lines of a response\<close>

lemma str_split_ne [simp]: "str_split s \<noteq> []"
  by (induction s) (auto split: list.splits)

lemma trim_Nil [simp]: "str_trim [] = []" by (simp add: str_trim_def)

lemma trim_ws_Cons: "isWhiteSpace c \<Longrightarrow> str_trim (c # l) = str_trim l"
  by (simp add: str_trim_def)

lemma isWhiteSpace_LF [simp]: "isWhiteSpace LF" by (simp add: isWhiteSpace_def LF_def)

lemma spec_rawLines_ws_Cons: "isWhiteSpace c \<Longrightarrow> spec_rawLines (c # t) = spec_rawLines t"
  by (cases "str_split t") (auto simp: spec_rawLines_def trim_ws_Cons)

lemma spec_rawLines_dropWhile: "spec_rawLines (dropWhile isWhiteSpace t) = spec_rawLines t"
  by (induction t) (auto simp: spec_rawLines_ws_Cons)

lemma trim_ws_snoc:
  assumes "isWhiteSpace c"
  shows "str_trim (l @ [c]) = str_trim l"
proof (cases "\<forall>x\<in>set l. isWhiteSpace x")
  case True
  have a: "dropWhile isWhiteSpace l = []" using True by simp
  have b: "dropWhile isWhiteSpace (l @ [c]) = []" using True assms by simp
  show ?thesis unfolding str_trim_def a b by simp
next
  case False
  then obtain x where "x \<in> set l" "\<not> isWhiteSpace x" by blast
  then have b: "dropWhile isWhiteSpace (l @ [c]) = dropWhile isWhiteSpace l @ [c]"
    by (rule dropWhile_append1)
  show ?thesis unfolding str_trim_def b using assms by simp
qed

lemma split_snoc:
  "str_split (t @ [c]) =
     (if c = LF then str_split t @ [[]]
      else butlast (str_split t) @ [last (str_split t) @ [c]])"
  by (induction t) (auto split: list.splits)

lemma spec_rawLines_ws_snoc:
  assumes "isWhiteSpace c"
  shows "spec_rawLines (t @ [c]) = spec_rawLines t"
proof (cases "c = LF")
  case True
  then show ?thesis by (simp add: spec_rawLines_def split_snoc)
next
  case False
  obtain bs l where bl: "str_split t = bs @ [l]"
    using str_split_ne [of t] by (metis rev_exhaust)
  show ?thesis using False assms
    by (simp add: spec_rawLines_def split_snoc bl trim_ws_snoc)
qed

lemma spec_rawLines_trim_end: "spec_rawLines (rev (dropWhile isWhiteSpace (rev t))) = spec_rawLines t"
  by (induction t rule: rev_induct) (auto simp: spec_rawLines_ws_snoc)

lemma suggestions_eq_spec: "suggestions t = spec_rawLines t"
  by (simp add: suggestions_def str_trim_def spec_rawLines_trim_end spec_rawLines_dropWhile flip: spec_rawLines_def)


section \<open>Properties of generateCommitMessage\<close>

lemma validSuggestions_eq_spec: "validSuggestions t = spec_validCandidates t"
  by (simp add: validSuggestions_def spec_validCandidates_def suggestions_eq_spec
      isValidSuggestion_def [abs_def] fence_def)

lemma spec_rawLines_Nil [simp]: "spec_rawLines [] = []"
  by (simp add: spec_rawLines_def)

text \<open>
  Claim C2 (fallback law). When the generator answers with a text whose trimmed
  non-blank lines are not empty while none of them passes the format filter,
  \<open>generateCommitMessage\<close> returns exactly those lines, after one request, and
  prints the format-mismatch warning.
\<close>
theorem C2_fallback_law:
  assumes "diffText \<noteq> []"
    and "generateContent E (buildPrompt diffText) = Text response"
    and "spec_rawLines response \<noteq> []"
    and "spec_validCandidates response = []"
  shows "generateCommitMessage E diffText =
           ([Print ContactingGemini, GenerateContent (buildPrompt diffText),
             Print FormatMismatchWarning],
            Some (spec_rawLines response))"
proof -
  from assms(3) have "response \<noteq> []" by auto
  with assms show ?thesis
    by (simp add: generateCommitMessage_def validSuggestions_eq_spec suggestions_eq_spec)
qed

text \<open>Two lines without a colon or parentheses come back as they are, trimmed.\<close>
theorem C2_fallback_law_witness:
  "generateCommitMessage (sampleEnv (Text (js ''add x\<newline>  remove y ''))) (js ''+x'') =
     ([Print ContactingGemini, GenerateContent (buildPrompt (js ''+x'')),
       Print FormatMismatchWarning],
      Some [js ''add x'', js ''remove y''])"
proof -
  have d: "js ''+x'' \<noteq> []" by (simp add: js_def)
  have g: "generateContent (sampleEnv (Text (js ''add x\<newline>  remove y '')))
             (buildPrompt (js ''+x'')) = Text (js ''add x\<newline>  remove y '')"
    by (simp add: sampleEnv_def)
  have r: "spec_rawLines (js ''add x\<newline>  remove y '') = [js ''add x'', js ''remove y'']"
    by code_simp
  have v: "spec_validCandidates (js ''add x\<newline>  remove y '') = []"
    by code_simp
  show ?thesis using C2_fallback_law [OF d g _ v] r by simp
qed

lemma split_no_LF: "LF \<notin> set l \<Longrightarrow> str_split l = [l]"
  by (induction l) auto

lemma split_line: "LF \<notin> set l \<Longrightarrow> str_split (l @ LF # t) = l # str_split t"
  by (induction l) auto

lemma valid_nonempty: "isValidSuggestion l \<Longrightarrow> l \<noteq> []"
  by (auto simp: isValidSuggestion_def js_def)

text \<open>
  Claim C3. A response of exactly three lines, each of which is, once trimmed, of
  the form the filter accepts (it contains a colon and both parentheses and
  neither starts nor ends with a triple backtick), yields exactly these three
  candidates in their order; lines that carry no surrounding white space are
  returned unchanged.
\<close>
theorem C3_three_lines:
  assumes "diffText \<noteq> []"
    and "generateContent E (buildPrompt diffText) = Text (l1 @ LF # l2 @ LF # l3)"
    and "LF \<notin> set l1" "LF \<notin> set l2" "LF \<notin> set l3"
    and "isValidSuggestion (str_trim l1)" "isValidSuggestion (str_trim l2)"
        "isValidSuggestion (str_trim l3)"
  shows "generateCommitMessage E diffText =
           ([Print ContactingGemini, GenerateContent (buildPrompt diffText)],
            Some [str_trim l1, str_trim l2, str_trim l3])
         \<and> (str_trim l1 = l1 \<and> str_trim l2 = l2 \<and> str_trim l3 = l3 \<longrightarrow>
              snd (generateCommitMessage E diffText) = Some [l1, l2, l3])"
proof -
  let ?t = "l1 @ LF # l2 @ LF # l3"
  have sp: "str_split ?t = [l1, l2, l3]"
    using assms(3-5) by (simp add: split_line split_no_LF)
  have raw: "suggestions ?t = [str_trim l1, str_trim l2, str_trim l3]"
    using assms(6-8) by (simp add: suggestions_eq_spec spec_rawLines_def sp valid_nonempty)
  have val: "validSuggestions ?t = [str_trim l1, str_trim l2, str_trim l3]"
    using assms(6-8) by (simp add: validSuggestions_def raw)
  have "generateCommitMessage E diffText =
           ([Print ContactingGemini, GenerateContent (buildPrompt diffText)],
            Some [str_trim l1, str_trim l2, str_trim l3])"
    using assms(1,2) by (simp add: generateCommitMessage_def raw val)
  then show ?thesis by simp
qed

text \<open>The scenario of the specification: three conventional commit lines.\<close>
theorem C3_three_lines_witness:
  "generateCommitMessage
     (sampleEnv (Text (js ''feat(core): add x'' @ LF # js ''fix(core): remove y''
                         @ LF # js ''docs(core): note x'')))
     (js ''+x'') =
     ([Print ContactingGemini, GenerateContent (buildPrompt (js ''+x''))],
      Some [js ''feat(core): add x'', js ''fix(core): remove y'', js ''docs(core): note x''])"
proof -
  let ?l1 = "js ''feat(core): add x''" and ?l2 = "js ''fix(core): remove y''"
    and ?l3 = "js ''docs(core): note x''"
  have d: "js ''+x'' \<noteq> []" by (simp add: js_def)
  have g: "generateContent (sampleEnv (Text (?l1 @ LF # ?l2 @ LF # ?l3)))
             (buildPrompt (js ''+x'')) = Text (?l1 @ LF # ?l2 @ LF # ?l3)"
    by (simp add: sampleEnv_def)
  have n1: "LF \<notin> set ?l1" and n2: "LF \<notin> set ?l2" and n3: "LF \<notin> set ?l3"
    by (simp_all add: js_def LF_def)
  have t1: "str_trim ?l1 = ?l1" and t2: "str_trim ?l2 = ?l2" and t3: "str_trim ?l3 = ?l3"
    by code_simp+
  have v1: "isValidSuggestion (str_trim ?l1)" and v2: "isValidSuggestion (str_trim ?l2)"
    and v3: "isValidSuggestion (str_trim ?l3)"
    by code_simp+
  show ?thesis using C3_three_lines [OF d g n1 n2 n3 v1 v2 v3] t1 t2 t3 by simp
qed

text \<open>
  Claim C4. The valid suggestions computed by the source are exactly the trimmed
  non-blank lines of the response that contain a colon and both parentheses and
  neither start nor end with a triple backtick; a line that starts or ends with a
  triple backtick is never among them; and when there is at least one valid
  candidate, they are what \<open>generateCommitMessage\<close> returns.
\<close>
theorem C4_validCandidates:
  "validSuggestions response = spec_validCandidates response
   \<and> (\<forall>l \<in> set (spec_rawLines response).
         str_startsWith l (js ''```'') \<or> str_endsWith l (js ''```'')
           \<longrightarrow> l \<notin> set (validSuggestions response))
   \<and> (diffText \<noteq> [] \<and> generateContent E (buildPrompt diffText) = Text response
        \<and> spec_validCandidates response \<noteq> []
        \<longrightarrow> generateCommitMessage E diffText =
              ([Print ContactingGemini, GenerateContent (buildPrompt diffText)],
               Some (spec_validCandidates response)))"
proof (intro conjI)
  show "validSuggestions response = spec_validCandidates response"
    by (rule validSuggestions_eq_spec)
  show "\<forall>l \<in> set (spec_rawLines response).
         str_startsWith l (js ''```'') \<or> str_endsWith l (js ''```'')
           \<longrightarrow> l \<notin> set (validSuggestions response)"
    by (auto simp: validSuggestions_eq_spec spec_validCandidates_def)
  show "diffText \<noteq> [] \<and> generateContent E (buildPrompt diffText) = Text response
        \<and> spec_validCandidates response \<noteq> []
        \<longrightarrow> generateCommitMessage E diffText =
              ([Print ContactingGemini, GenerateContent (buildPrompt diffText)],
               Some (spec_validCandidates response))"
  proof (intro impI, elim conjE)
    assume d: "diffText \<noteq> []"
      and g: "generateContent E (buildPrompt diffText) = Text response"
      and v: "spec_validCandidates response \<noteq> []"
    from v have r: "spec_rawLines response \<noteq> []"
      by (auto simp: spec_validCandidates_def)
    then have "response \<noteq> []" by auto
    with d g v r show "generateCommitMessage E diffText =
              ([Print ContactingGemini, GenerateContent (buildPrompt diffText)],
               Some (spec_validCandidates response))"
      by (simp add: generateCommitMessage_def validSuggestions_eq_spec suggestions_eq_spec)
  qed
qed

text \<open>A response with a fence line, a fenced tail and a line of plain words.\<close>
theorem C4_validCandidates_witness:
  "validSuggestions (js ''```text\<newline> feat(a): b \<newline>plain words\<newline>fix(c): d```\<newline>'')
     = [js ''feat(a): b'']
   \<and> js ''```text'' \<notin> set (validSuggestions
         (js ''```text\<newline> feat(a): b \<newline>plain words\<newline>fix(c): d```\<newline>''))
   \<and> js ''fix(c): d```'' \<notin> set (validSuggestions
         (js ''```text\<newline> feat(a): b \<newline>plain words\<newline>fix(c): d```\<newline>''))
   \<and> generateCommitMessage
        (sampleEnv (Text (js ''```text\<newline> feat(a): b \<newline>plain words\<newline>fix(c): d```\<newline>'')))
        (js ''+x'')
      = ([Print ContactingGemini, GenerateContent (buildPrompt (js ''+x''))],
         Some [js ''feat(a): b''])"
proof -
  let ?t = "js ''```text\<newline> feat(a): b \<newline>plain words\<newline>fix(c): d```\<newline>''"
  note c4 = C4_validCandidates [of ?t "js ''+x''" "sampleEnv (Text ?t)"]
  have d: "js ''+x'' \<noteq> []" by (simp add: js_def)
  have g: "generateContent (sampleEnv (Text ?t)) (buildPrompt (js ''+x'')) = Text ?t"
    by (simp add: sampleEnv_def)
  have r: "spec_rawLines ?t
             = [js ''```text'', js ''feat(a): b'', js ''plain words'', js ''fix(c): d```'']"
    by code_simp
  have v: "spec_validCandidates ?t = [js ''feat(a): b'']"
    by code_simp
  have s1: "str_startsWith (js ''```text'') (js ''```'')" by code_simp
  have s2: "str_endsWith (js ''fix(c): d```'') (js ''```'')" by code_simp
  have m1: "js ''```text'' \<in> set (spec_rawLines ?t)" unfolding r by simp
  have m2: "js ''fix(c): d```'' \<in> set (spec_rawLines ?t)" unfolding r by simp
  have 1: "validSuggestions ?t = [js ''feat(a): b'']"
    using c4 [THEN conjunct1] unfolding v .
  have 2: "js ''```text'' \<notin> set (validSuggestions ?t)"
    using c4 [THEN conjunct2, THEN conjunct1, rule_format, OF m1] s1 by blast
  have 3: "js ''fix(c): d```'' \<notin> set (validSuggestions ?t)"
    using c4 [THEN conjunct2, THEN conjunct1, rule_format, OF m2] s2 by blast
  have v': "spec_validCandidates ?t \<noteq> []" unfolding v by simp
  have 4: "generateCommitMessage (sampleEnv (Text ?t)) (js ''+x'')
      = ([Print ContactingGemini, GenerateContent (buildPrompt (js ''+x''))],
         Some [js ''feat(a): b''])"
    using c4 [THEN conjunct2, THEN conjunct2, rule_format, OF conjI [OF d conjI [OF g v']]]
    unfolding v .
  from 1 2 3 4 show ?thesis by blast
qed

lemma chooseMessage_candidateSequence:
  "chooseMessage E suggs answers = chooseMessage E (Some (candidateSequence suggs)) answers"
  by (cases suggs) (simp_all add: chooseMessage_def)

text \<open>
  Claim C9. For a non-empty diff, \<open>generateCommitMessage\<close> sends exactly one
  request to the text generator. When the request fails, and when the response is
  empty or has no non-blank line, the result is \<open>null\<close>, which stands for the
  empty candidate sequence and is treated as such by the selection, and a
  diagnostic is printed. Every such failure is a value returned, not an exception.
\<close>
theorem C9_single_request:
  assumes "diffText \<noteq> []"
  shows "length (filter isGenerateContent (fst (generateCommitMessage E diffText))) = 1
    \<and> (\<forall>err. generateContent E (buildPrompt diffText) = Throws err \<longrightarrow>
          candidateSequence (snd (generateCommitMessage E diffText)) = []
          \<and> Print (GeminiError (description err)) \<in> set (fst (generateCommitMessage E diffText)))
    \<and> (generateContent E (buildPrompt diffText) = Text [] \<longrightarrow>
          generateCommitMessage E diffText =
            ([Print ContactingGemini, GenerateContent (buildPrompt diffText),
              Print NoTextResponse], None))
    \<and> (\<forall>response. generateContent E (buildPrompt diffText) = Text response
          \<and> response \<noteq> [] \<and> spec_rawLines response = [] \<longrightarrow>
          generateCommitMessage E diffText =
            ([Print ContactingGemini, GenerateContent (buildPrompt diffText),
              Print NoProcessableSuggestions], None))
    \<and> (\<forall>answers. chooseMessage E (snd (generateCommitMessage E diffText)) answers
          = chooseMessage E
              (Some (candidateSequence (snd (generateCommitMessage E diffText)))) answers)"
proof (intro conjI allI impI)
  show "length (filter isGenerateContent (fst (generateCommitMessage E diffText))) = 1"
    using assms
    by (cases "generateContent E (buildPrompt diffText)")
       (auto simp: generateCommitMessage_def Let_def split: option.splits)
next
  fix err assume "generateContent E (buildPrompt diffText) = Throws err"
  with assms show "candidateSequence (snd (generateCommitMessage E diffText)) = []"
    and "Print (GeminiError (description err)) \<in> set (fst (generateCommitMessage E diffText))"
    by (simp_all add: generateCommitMessage_def)
next
  assume "generateContent E (buildPrompt diffText) = Text []"
  with assms show "generateCommitMessage E diffText =
            ([Print ContactingGemini, GenerateContent (buildPrompt diffText),
              Print NoTextResponse], None)"
    by (simp add: generateCommitMessage_def)
next
  fix response
  assume "generateContent E (buildPrompt diffText) = Text response
          \<and> response \<noteq> [] \<and> spec_rawLines response = []"
  with assms show "generateCommitMessage E diffText =
            ([Print ContactingGemini, GenerateContent (buildPrompt diffText),
              Print NoProcessableSuggestions], None)"
    by (simp add: generateCommitMessage_def suggestions_eq_spec validSuggestions_def)
next
  fix answers
  show "chooseMessage E (snd (generateCommitMessage E diffText)) answers
          = chooseMessage E
              (Some (candidateSequence (snd (generateCommitMessage E diffText)))) answers"
    by (rule chooseMessage_candidateSequence)
qed

text \<open>A transport failure and an empty response.\<close>
theorem C9_single_request_witness:
  "generateCommitMessage
     (sampleEnv (Throws \<lparr>description = js ''Error: fetch failed'', promptFeedback = None\<rparr>))
     (js ''+x'')
   = ([Print ContactingGemini, GenerateContent (buildPrompt (js ''+x'')),
       Print (GeminiError (js ''Error: fetch failed''))], None)
   \<and> generateCommitMessage (sampleEnv (Text [])) (js ''+x'')
   = ([Print ContactingGemini, GenerateContent (buildPrompt (js ''+x'')),
       Print NoTextResponse], None)"
proof -
  have d: "js ''+x'' \<noteq> []" by (simp add: js_def)
  have g: "generateContent (sampleEnv (Text [])) (buildPrompt (js ''+x'')) = Text []"
    by (simp add: sampleEnv_def)
  have "generateCommitMessage (sampleEnv (Text [])) (js ''+x'')
   = ([Print ContactingGemini, GenerateContent (buildPrompt (js ''+x'')),
       Print NoTextResponse], None)"
    using C9_single_request [OF d, of "sampleEnv (Text [])"] g by blast
  moreover have "generateCommitMessage
     (sampleEnv (Throws \<lparr>description = js ''Error: fetch failed'', promptFeedback = None\<rparr>))
     (js ''+x'')
   = ([Print ContactingGemini, GenerateContent (buildPrompt (js ''+x'')),
       Print (GeminiError (js ''Error: fetch failed''))], None)"
    using d by (simp add: generateCommitMessage_def sampleEnv_def)
  ultimately show ?thesis by simp
qed


section \<open>Properties of commitChanges\<close>

text \<open>
  Claim C7. \<open>commitChanges\<close> asks git for the staged files before it commits.
  When the status lists no staged file and the staged diff is empty, it reports
  that there is nothing to commit and returns: \<open>git.commit\<close> is not among its
  events and the repository is left as it was. In particular a second call with
  the same message, in a repository where nothing is staged any more, ends so.
\<close>
theorem C7_nothing_staged:
  "(status_staged E r = Inr 0 \<and> diff_cached E r = Inr [] \<longrightarrow>
      commitChanges E r m useGpgSign =
        (NothingToCommit,
         [GitStatus, GitDiffCached, Print NothingStagedWarning, Print UseGitAddHint], r))
   \<and> (\<forall>r0 res ev r1.
         commitChanges E r0 m useGpgSign = (res, ev, r1)
         \<and> status_staged E r1 = Inr 0 \<and> diff_cached E r1 = Inr [] \<longrightarrow>
         commitChanges E r1 m useGpgSign =
           (NothingToCommit,
            [GitStatus, GitDiffCached, Print NothingStagedWarning, Print UseGitAddHint], r1))"
  by (simp add: commitChanges_def)

text \<open>A commit that succeeds, and the same call again on the repository it leaves.\<close>
theorem C7_nothing_staged_witness:
  "commitChanges (sampleEnv (Text []))
     \<lparr>indexDiff = js ''+x'', commits = [], signingKey = False\<rparr> (js ''fix(core): remove y'') False
   = (Success,
      [GitStatus, Print PlainCommit, GitCommit (js ''fix(core): remove y'') [],
       Print (CommitSucceeded (js ''fix(core): remove y'') False)],
      \<lparr>indexDiff = [], commits = [(js ''fix(core): remove y'', [])], signingKey = False\<rparr>)
   \<and> commitChanges (sampleEnv (Text []))
     \<lparr>indexDiff = [], commits = [(js ''fix(core): remove y'', [])], signingKey = False\<rparr>
     (js ''fix(core): remove y'') False
   = (NothingToCommit,
      [GitStatus, GitDiffCached, Print NothingStagedWarning, Print UseGitAddHint],
      \<lparr>indexDiff = [], commits = [(js ''fix(core): remove y'', [])], signingKey = False\<rparr>)"
proof -
  let ?E = "sampleEnv (Text [])" and ?m = "js ''fix(core): remove y''"
  let ?r0 = "\<lparr>indexDiff = js ''+x'', commits = [], signingKey = False\<rparr>"
  let ?r1 = "\<lparr>indexDiff = [], commits = [(?m, [])], signingKey = False\<rparr>"
  have x: "js ''+x'' \<noteq> []" by (simp add: js_def)
  have first: "commitChanges ?E ?r0 ?m False
     = (Success, [GitStatus, Print PlainCommit, GitCommit ?m [],
                  Print (CommitSucceeded ?m False)], ?r1)"
    using x by (simp add: commitChanges_def runCommit_def sampleEnv_def sampleCommit_def)
  have s: "status_staged ?E ?r1 = Inr 0" and d: "diff_cached ?E ?r1 = Inr []"
    by (simp_all add: sampleEnv_def)
  have second: "commitChanges ?E ?r1 ?m False
     = (NothingToCommit,
        [GitStatus, GitDiffCached, Print NothingStagedWarning, Print UseGitAddHint], ?r1)"
    using C7_nothing_staged [of ?E ?r1 ?m False, THEN conjunct2, rule_format,
        OF conjI [OF first conjI [OF s d]]] .
  from first second show ?thesis by (rule conjI)
qed

lemma fst_classify:
  "fst (classifyCommitError E useGpgSign msg) =
           (if str_includes (toLowerCase E msg) (js ''nothing to commit'')
               \<or> str_includes (toLowerCase E msg) (js ''no changes added to commit'')
               \<or> str_includes (toLowerCase E msg) (js ''changes not staged for commit'')
            then NothingToCommit
            else if useGpgSign
                    \<and> (str_includes (toLowerCase E msg) (js ''gpg failed to sign the data'')
                         \<or> str_includes (toLowerCase E msg) (js ''no default secret key''))
            then SigningFailed
            else OtherFailure msg)"
  by (auto simp: classifyCommitError_def Let_def)

lemma fst_case_pair: "fst (case p of (a, b) \<Rightarrow> (a, g b)) = fst p"
  by (simp split: prod.splits)

lemma fst_case_triple: "fst (case p of (a, b, c) \<Rightarrow> (a, g b c)) = fst p"
  by (simp split: prod.splits)

lemma fst_runCommit:
  "fst (commit E r m (if useGpgSign then [js ''-S''] else [])) = Some msg \<Longrightarrow>
   fst (runCommit E r m useGpgSign) = fst (classifyCommitError E useGpgSign msg)"
  by (cases "commit E r m (if useGpgSign then [js ''-S''] else [])")
     (simp add: runCommit_def Let_def fst_case_pair)

lemma fst_commitChanges:
  assumes "rejection E r m useGpgSign = Some msg"
  shows "fst (commitChanges E r m useGpgSign) = fst (classifyCommitError E useGpgSign msg)"
proof (cases "status_staged E r")
  case (Inl e)
  with assms show ?thesis
    by (simp add: rejection_def commitChanges_def fst_case_pair)
next
  case (Inr n)
  show ?thesis
  proof (cases "0 < n")
    case True
    with Inr assms show ?thesis
      by (simp add: rejection_def commitChanges_def fst_case_triple fst_runCommit)
  next
    case False
    with Inr assms show ?thesis
      by (cases "diff_cached E r")
         (simp_all add: rejection_def commitChanges_def fst_case_pair fst_case_triple
            fst_runCommit split: if_splits)
  qed
qed

text \<open>
  Claim C8, as amended. Whatever rejection \<open>commitChanges\<close> catches is classified
  by its lower-cased message: a message that contains \<open>nothing to commit\<close>,
  \<open>no changes added to commit\<close> or \<open>changes not staged for commit\<close> is
  nothing-to-commit; otherwise, when signing was requested, a message that
  contains \<open>gpg failed to sign the data\<close> or \<open>no default secret key\<close> is a
  signing failure; every other rejection is an other-failure that carries the
  message as it was.
\<close>
theorem C8_classification:
  assumes "rejection E r m useGpgSign = Some msg"
  shows "fst (commitChanges E r m useGpgSign) =
           (if str_includes (toLowerCase E msg) (js ''nothing to commit'')
               \<or> str_includes (toLowerCase E msg) (js ''no changes added to commit'')
               \<or> str_includes (toLowerCase E msg) (js ''changes not staged for commit'')
            then NothingToCommit
            else if useGpgSign
                    \<and> (str_includes (toLowerCase E msg) (js ''gpg failed to sign the data'')
                         \<or> str_includes (toLowerCase E msg) (js ''no default secret key''))
            then SigningFailed
            else OtherFailure msg)"
  unfolding fst_commitChanges [OF assms] by (rule fst_classify)


text \<open>A signed commit that gpg refuses.\<close>
theorem C8_classification_witness:
  "rejection (failingEnv (js ''error: gpg failed to sign the data''))
     \<lparr>indexDiff = js ''+x'', commits = [], signingKey = False\<rparr> (js ''fix(a): b'') True
     = Some (js ''error: gpg failed to sign the data'')
   \<and> fst (commitChanges (failingEnv (js ''error: gpg failed to sign the data''))
     \<lparr>indexDiff = js ''+x'', commits = [], signingKey = False\<rparr> (js ''fix(a): b'') True)
     = SigningFailed"
proof -
  let ?msg = "js ''error: gpg failed to sign the data''"
  let ?r = "\<lparr>indexDiff = js ''+x'', commits = [], signingKey = False\<rparr>"
  have x: "js ''+x'' \<noteq> []" by (simp add: js_def)
  have rej: "rejection (failingEnv ?msg) ?r (js ''fix(a): b'') True = Some ?msg"
    using x by (simp add: rejection_def failingEnv_def sampleEnv_def rejectAll_def)
  have lc: "toLowerCase (failingEnv ?msg) ?msg = ?msg"
    unfolding failingEnv_def sampleEnv_def by code_simp
  have n1: "\<not> str_includes ?msg (js ''nothing to commit'')"
    and n2: "\<not> str_includes ?msg (js ''no changes added to commit'')"
    and n3: "\<not> str_includes ?msg (js ''changes not staged for commit'')"
    and g: "str_includes ?msg (js ''gpg failed to sign the data'')"
    by code_simp+
  have "fst (commitChanges (failingEnv ?msg) ?r (js ''fix(a): b'') True) = SigningFailed"
    using C8_classification [OF rej] unfolding lc using n1 n2 n3 g by simp
  with rej show ?thesis by (rule conjI)
qed

text \<open>
  Claim C8 as it is written fails: a rejection whose message contains
  \<open>not staged\<close>, but not the longer phrase the source looks for, is reported as
  an other-failure.
\<close>
theorem C8_counterexample:
  "str_includes (toLowerCase (failingEnv (js ''fatal: file not staged''))
                   (js ''fatal: file not staged'')) (js ''not staged'')
   \<and> commitChanges (failingEnv (js ''fatal: file not staged''))
        \<lparr>indexDiff = js ''+x'', commits = [], signingKey = False\<rparr> (js ''fix(a): b'') False
     = (OtherFailure (js ''fatal: file not staged''),
        [GitStatus, Print PlainCommit, GitCommit (js ''fix(a): b'') [],
         Print (GitCommitError (js ''fatal: file not staged''))],
        \<lparr>indexDiff = js ''+x'', commits = [], signingKey = False\<rparr>)"
  by code_simp


section \<open>Properties of the selection\<close>

lemma digit_not_ws:
  assumes "isDigit c"
  shows "\<not> isWhiteSpace c"
proof
  assume w: "isWhiteSpace c"
  from assms have lo: "0x0030 \<le> c" and hi: "c \<le> 0x0039"
    by (simp_all add: isDigit_def)
  have "\<not> 0x2000 \<le> c"
  proof
    assume "0x2000 \<le> c"
    then have "(0x2000 :: jschar) \<le> 0x0039" using hi by (rule order_trans)
    then show False by simp
  qed
  with w lo hi show False by (auto simp: isWhiteSpace_def)
qed

lemma digit_not_sign: "isDigit c \<Longrightarrow> c \<noteq> 0x002B \<and> c \<noteq> 0x002D"
  by (auto simp: isDigit_def)

lemma parseInt10_prefix:
  assumes ws: "\<forall>c\<in>set ws. isWhiteSpace c"
    and ds: "ds \<noteq> []" "\<forall>c\<in>set ds. isDigit c"
    and tl: "tail = [] \<or> \<not> isDigit (hd tail)"
  shows "parseInt10 (ws @ ds @ tail) = Some (digitsValue ds)"
proof -
  from ds obtain d ds' where d: "ds = d # ds'" "isDigit d" by (cases ds) auto
  have S: "dropWhile isWhiteSpace (ws @ ds @ tail) = ds @ tail"
    using ws d by (simp add: dropWhile_append digit_not_ws)
  have Z: "takeWhile isDigit (ds @ tail) = ds"
    using ds(2) tl by (cases tail) (simp_all add: takeWhile_append2)
  show ?thesis
    unfolding parseInt10_def S using Z d digit_not_sign [of d]
    by (simp add: Let_def)
qed

text \<open>
  Claim C10. At the numbered menu, an answer is accepted as soon as
  \<open>parseInt\<close> reads from it a number between 1 and the number of candidates:
  that candidate is chosen and the loop is left, without asking again. What
  \<open>parseInt\<close> reads is the leading run of decimal digits after optional white
  space, whatever follows it.
\<close>
theorem C10_integer_prefix:
  "(parseInt10 choiceStr = Some k \<and> 1 \<le> k \<and> k \<le> int (length sugg) \<longrightarrow>
      chooseLoop sugg (choiceStr # rest) =
        ([Asked (AskChoice (length sugg + 2)) choiceStr, Print (YouChose (sugg ! nat (k - 1)))],
         Some (sugg ! nat (k - 1), rest)))
   \<and> ((\<forall>c\<in>set ws. isWhiteSpace c) \<and> ds \<noteq> [] \<and> (\<forall>c\<in>set ds. isDigit c)
        \<and> (tail = [] \<or> \<not> isDigit (hd tail)) \<longrightarrow>
      parseInt10 (ws @ ds @ tail) = Some (digitsValue ds))"
  by (simp add: parseInt10_prefix)

text \<open>The answers \<open>2abc\<close> and \<open>1.9\<close> with three candidates.\<close>
theorem C10_integer_prefix_witness:
  "chooseLoop [js ''feat(a): b'', js ''fix(c): d'', js ''docs(e): f''] [js ''2abc'', js ''y'']
     = ([Asked (AskChoice 5) (js ''2abc''), Print (YouChose (js ''fix(c): d''))],
        Some (js ''fix(c): d'', [js ''y'']))
   \<and> chooseLoop [js ''feat(a): b'', js ''fix(c): d'', js ''docs(e): f''] [js ''1.9'', js ''y'']
     = ([Asked (AskChoice 5) (js ''1.9''), Print (YouChose (js ''feat(a): b''))],
        Some (js ''feat(a): b'', [js ''y'']))
   \<and> parseInt10 (js ''2abc'') = Some 2 \<and> parseInt10 (js ''1.9'') = Some 1"
proof -
  let ?sugg = "[js ''feat(a): b'', js ''fix(c): d'', js ''docs(e): f'']"
  have p2: "parseInt10 ([] @ js ''2'' @ js ''abc'') = Some (digitsValue (js ''2''))"
    using C10_integer_prefix [of "js ''2abc''" 2 ?sugg "[]" "[]" "js ''2''" "js ''abc''",
        THEN conjunct2]
    by (simp add: js_def isDigit_def)
  have p1: "parseInt10 ([] @ js ''1'' @ js ''.9'') = Some (digitsValue (js ''1''))"
    using C10_integer_prefix [of "js ''1.9''" 1 ?sugg "[]" "[]" "js ''1''" "js ''.9''",
        THEN conjunct2]
    by (simp add: js_def isDigit_def)
  have v2: "digitsValue (js ''2'') = 2" and v1: "digitsValue (js ''1'') = 1"
    by (simp_all add: digitsValue_def js_def)
  have a2: "[] @ js ''2'' @ js ''abc'' = js ''2abc''"
    and a1: "[] @ js ''1'' @ js ''.9'' = js ''1.9''"
    by (simp_all add: js_def)
  have q2: "parseInt10 (js ''2abc'') = Some 2" using p2 unfolding a2 v2 .
  have q1: "parseInt10 (js ''1.9'') = Some 1" using p1 unfolding a1 v1 .
  have c2: "chooseLoop ?sugg [js ''2abc'', js ''y'']
     = ([Asked (AskChoice 5) (js ''2abc''), Print (YouChose (js ''fix(c): d''))],
        Some (js ''fix(c): d'', [js ''y'']))"
    using C10_integer_prefix [of "js ''2abc''" 2 ?sugg "[js ''y'']", THEN conjunct1] q2
    by simp
  have c1: "chooseLoop ?sugg [js ''1.9'', js ''y'']
     = ([Asked (AskChoice 5) (js ''1.9''), Print (YouChose (js ''feat(a): b''))],
        Some (js ''feat(a): b'', [js ''y'']))"
    using C10_integer_prefix [of "js ''1.9''" 1 ?sugg "[js ''y'']", THEN conjunct1] q1
    by simp
  from c2 c1 q2 q1 show ?thesis by blast
qed

text \<open>
  Claim C6 as it is written fails: with no candidates, an operator who accepts
  manual entry and then sends a blank line is not asked again; the run is
  cancelled and the answers that follow are never read.
\<close>
theorem C6_counterexample:
  "str_trim (js ''  '') = []
   \<and> selection (sampleEnv (Text [])) None
        [js ''y'', js ''  '', js ''fix(a): b'', js ''y'', js ''n'']
     = ([Print NoValidSuggestions, Asked AskUseManual (js ''y''),
         Asked AskManualMessage (js ''  ''), Print EmptyMessageCancelled], None)"
  by code_simp

text \<open>
  Claim C6, as amended. In manual entry reached from the numbered menu, a blank
  line (blank after trimming) does not cancel: the loop goes on with the numbered
  question, and a non-blank line goes on to the confirmation of the trimmed text.
  In manual entry reached with no candidates, a blank line cancels the run, a
  non-blank line goes on to the confirmation of the trimmed text, and declining
  manual entry cancels at once.
\<close>
theorem C6_manual_entry:
  "(parseInt10 choiceStr = Some (int (length sugg) + 1) \<and> str_trim manualMessage = [] \<longrightarrow>
      chooseLoop sugg (choiceStr # manualMessage # rest) =
        (Asked (AskChoice (length sugg + 2)) choiceStr # Asked AskManualMessage manualMessage
           # Print EmptyMessageRetry # fst (chooseLoop sugg rest),
         snd (chooseLoop sugg rest)))
   \<and> (parseInt10 choiceStr = Some (int (length sugg) + 1) \<and> str_trim manualMessage \<noteq> []
        \<and> sugg \<noteq> [] \<longrightarrow>
      selection E (Some sugg) (choiceStr # manualMessage # rest) =
        (menu sugg @ [Asked (AskChoice (length sugg + 2)) choiceStr,
                      Asked AskManualMessage manualMessage]
           @ fst (confirm E (str_trim manualMessage) rest),
         snd (confirm E (str_trim manualMessage) rest)))
   \<and> (candidateSequence suggs = [] \<and> toLowerCase E useManual = js ''y''
        \<and> str_trim manualMessage = [] \<longrightarrow>
      selection E suggs (useManual # manualMessage # rest) =
        ([Print NoValidSuggestions, Asked AskUseManual useManual,
          Asked AskManualMessage manualMessage, Print EmptyMessageCancelled], None))
   \<and> (candidateSequence suggs = [] \<and> toLowerCase E useManual = js ''y''
        \<and> str_trim manualMessage \<noteq> [] \<longrightarrow>
      selection E suggs (useManual # manualMessage # rest) =
        ([Print NoValidSuggestions, Asked AskUseManual useManual,
          Asked AskManualMessage manualMessage]
           @ fst (confirm E (str_trim manualMessage) rest),
         snd (confirm E (str_trim manualMessage) rest)))
   \<and> (candidateSequence suggs = [] \<and> toLowerCase E useManual \<noteq> js ''y'' \<longrightarrow>
      selection E suggs (useManual # rest) =
        ([Print NoValidSuggestions, Asked AskUseManual useManual], None))"
proof (intro conjI impI)
  assume "parseInt10 choiceStr = Some (int (length sugg) + 1) \<and> str_trim manualMessage = []"
  then show "chooseLoop sugg (choiceStr # manualMessage # rest) =
        (Asked (AskChoice (length sugg + 2)) choiceStr # Asked AskManualMessage manualMessage
           # Print EmptyMessageRetry # fst (chooseLoop sugg rest),
         snd (chooseLoop sugg rest))"
    by (simp add: Let_def split: prod.splits)
next
  assume "parseInt10 choiceStr = Some (int (length sugg) + 1) \<and> str_trim manualMessage \<noteq> []
        \<and> sugg \<noteq> []"
  then show "selection E (Some sugg) (choiceStr # manualMessage # rest) =
        (menu sugg @ [Asked (AskChoice (length sugg + 2)) choiceStr,
                      Asked AskManualMessage manualMessage]
           @ fst (confirm E (str_trim manualMessage) rest),
         snd (confirm E (str_trim manualMessage) rest))"
    by (simp add: selection_def chooseMessage_def Let_def split: prod.splits)
next
  assume "candidateSequence suggs = [] \<and> toLowerCase E useManual = js ''y''
        \<and> str_trim manualMessage = []"
  then show "selection E suggs (useManual # manualMessage # rest) =
        ([Print NoValidSuggestions, Asked AskUseManual useManual,
          Asked AskManualMessage manualMessage, Print EmptyMessageCancelled], None)"
    by (cases suggs) (simp_all add: selection_def chooseMessage_def manualFallback_def)
next
  assume "candidateSequence suggs = [] \<and> toLowerCase E useManual = js ''y''
        \<and> str_trim manualMessage \<noteq> []"
  then show "selection E suggs (useManual # manualMessage # rest) =
        ([Print NoValidSuggestions, Asked AskUseManual useManual,
          Asked AskManualMessage manualMessage]
           @ fst (confirm E (str_trim manualMessage) rest),
         snd (confirm E (str_trim manualMessage) rest))"
    by (cases suggs)
       (simp_all add: selection_def chooseMessage_def manualFallback_def split: prod.splits)
next
  assume "candidateSequence suggs = [] \<and> toLowerCase E useManual \<noteq> js ''y''"
  then show "selection E suggs (useManual # rest) =
        ([Print NoValidSuggestions, Asked AskUseManual useManual], None)"
    by (cases suggs) (simp_all add: selection_def chooseMessage_def manualFallback_def)
qed


text \<open>Manual entry chosen from a menu of two, a blank line, then the cancel option.\<close>
theorem C6_manual_entry_witness:
  "chooseLoop [js ''feat(a): b'', js ''fix(c): d''] [js ''3'', js ''  '', js ''4'']
     = ([Asked (AskChoice 4) (js ''3''), Asked AskManualMessage (js ''  ''),
         Print EmptyMessageRetry, Asked (AskChoice 4) (js ''4''), Print CommitCancelled],
        None)"
proof -
  let ?sugg = "[js ''feat(a): b'', js ''fix(c): d'']"
  have p: "parseInt10 (js ''3'') = Some (int (length ?sugg) + 1)" by code_simp
  have b: "str_trim (js ''  '') = []" by code_simp
  have r: "chooseLoop ?sugg [js ''4'']
             = ([Asked (AskChoice 4) (js ''4''), Print CommitCancelled], None)"
    by code_simp
  have "chooseLoop ?sugg (js ''3'' # js ''  '' # [js ''4'']) =
        (Asked (AskChoice (length ?sugg + 2)) (js ''3'') # Asked AskManualMessage (js ''  '')
           # Print EmptyMessageRetry # fst (chooseLoop ?sugg [js ''4'']),
         snd (chooseLoop ?sugg [js ''4'']))"
    using C6_manual_entry [of "js ''3''" ?sugg "js ''  ''" "[js ''4'']", THEN conjunct1] p b
    by blast
  then show ?thesis unfolding r by simp
qed

lemma chooseLoop_events: "\<forall>e\<in>set (fst (chooseLoop sugg answers)). beforeConfirm e"
proof (induction answers rule: length_induct)
  case (1 answers)
  show ?case
  proof (cases answers)
    case Nil
    then show ?thesis by simp
  next
    case (Cons choiceStr rest)
    have IH: "\<forall>e\<in>set (fst (chooseLoop sugg rest)). beforeConfirm e"
    proof -
      have "length rest < length answers" using Cons by simp
      with 1 show ?thesis by blast
    qed
    show ?thesis
    proof (cases "parseInt10 choiceStr")
      case None
      with Cons IH show ?thesis by (simp add: Let_def split: prod.splits)
    next
      case (Some choice)
      show ?thesis
      proof (cases "choice = int (length sugg) + 1")
        case False
        with Cons Some IH show ?thesis by (simp add: Let_def split: prod.splits)
      next
        case True
        show ?thesis
        proof (cases rest)
          case Nil
          with Cons Some True show ?thesis by (simp add: Let_def)
        next
          case (Cons manualMessage rest')
          have IH': "\<forall>e\<in>set (fst (chooseLoop sugg rest')). beforeConfirm e"
          proof -
            have "length rest' < length answers"
              using \<open>answers = choiceStr # rest\<close> Cons by simp
            with 1 show ?thesis by blast
          qed
          with \<open>answers = choiceStr # rest\<close> Cons Some True show ?thesis
            by (simp add: Let_def split: prod.splits)
        qed
      qed
    qed
  qed
qed

lemma menu_events: "\<forall>e\<in>set (menu sugg). beforeConfirm e"
  by (auto simp: menu_def)

lemma manualFallback_events: "\<forall>e\<in>set (fst (manualFallback E answers)). beforeConfirm e"
  by (auto simp: manualFallback_def split: list.splits)

lemma chooseMessage_events: "\<forall>e\<in>set (fst (chooseMessage E suggs answers)). beforeConfirm e"
proof -
  have loop: "\<forall>e\<in>set (menu sugg @ fst (chooseLoop sugg answers)). beforeConfirm e" for sugg
    using chooseLoop_events [of sugg answers] menu_events [of sugg] by auto
  show ?thesis
  proof (cases suggs)
    case None
    then show ?thesis using manualFallback_events [of E answers]
      by (simp add: chooseMessage_def)
  next
    case (Some sugg)
    then show ?thesis using manualFallback_events [of E answers] loop [of sugg]
      by (simp add: chooseMessage_def split: prod.splits)
  qed
qed

lemma selection_cases [case_names quiet blocked declined unsigned request]:
  obtains
    (quiet) ev0 where "\<forall>e\<in>set ev0. beforeConfirm e"
      "selection E suggs answers = (ev0, None)"
  | (blocked) ev0 m where "\<forall>e\<in>set ev0. beforeConfirm e" "m \<noteq> []"
      "selection E suggs answers = (ev0 @ [Awaiting (AskConfirm m)], None)"
  | (declined) ev0 m a where "\<forall>e\<in>set ev0. beforeConfirm e" "m \<noteq> []"
      "toLowerCase E a \<noteq> js ''y''"
      "selection E suggs answers = (ev0 @ [Asked (AskConfirm m) a, Print CancelledByUser], None)"
  | (unsigned) ev0 m a where "\<forall>e\<in>set ev0. beforeConfirm e" "m \<noteq> []"
      "toLowerCase E a = js ''y''"
      "selection E suggs answers = (ev0 @ [Asked (AskConfirm m) a, Awaiting AskSign], None)"
  | (request) ev0 m a b where "\<forall>e\<in>set ev0. beforeConfirm e" "m \<noteq> []"
      "toLowerCase E a = js ''y''"
      "selection E suggs answers
         = (ev0 @ [Asked (AskConfirm m) a, Asked AskSign b],
            Some \<lparr>message = m, sign = (toLowerCase E b = js ''y'')\<rparr>)"
proof (cases "chooseMessage E suggs answers")
  case (Pair ev0 res)
  have ev0: "\<forall>e\<in>set ev0. beforeConfirm e"
    using chooseMessage_events [of E suggs answers] Pair by simp
  show thesis
  proof (cases res)
    case None
    with Pair have "selection E suggs answers = (ev0, None)"
      by (simp add: selection_def)
    with ev0 show thesis by (rule quiet)
  next
    case (Some mr)
    obtain m rest where mr: "mr = (m, rest)" by (cases mr)
    have sel: "selection E suggs answers = (ev0 @ fst (confirm E m rest), snd (confirm E m rest))"
      using Pair Some mr by (simp add: selection_def split: prod.splits)
    show thesis
    proof (cases "m = []")
      case True
      then have "selection E suggs answers = (ev0, None)"
        unfolding sel by (simp add: confirm_def)
      with ev0 show thesis by (rule quiet)
    next
      case ne: False
      show thesis
      proof (cases rest)
        case Nil
        with ne have "selection E suggs answers = (ev0 @ [Awaiting (AskConfirm m)], None)"
          unfolding sel by (simp add: confirm_def)
        with ev0 ne show thesis by (rule blocked)
      next
        case (Cons a rest')
        show thesis
        proof (cases "toLowerCase E a = js ''y''")
          case False
          with ne Cons have "selection E suggs answers
              = (ev0 @ [Asked (AskConfirm m) a, Print CancelledByUser], None)"
            unfolding sel by (simp add: confirm_def)
          with ev0 ne False show thesis by (rule declined)
        next
          case yes: True
          show thesis
          proof (cases rest')
            case Nil
            with ne Cons yes have "selection E suggs answers
                = (ev0 @ [Asked (AskConfirm m) a, Awaiting AskSign], None)"
              unfolding sel by (simp add: confirm_def)
            with ev0 ne yes show thesis by (rule unsigned)
          next
            case (Cons b rest'')
            with ne \<open>rest = a # rest'\<close> yes have "selection E suggs answers
                = (ev0 @ [Asked (AskConfirm m) a, Asked AskSign b],
                   Some \<lparr>message = m, sign = (toLowerCase E b = js ''y'')\<rparr>)"
              unfolding sel by (simp add: confirm_def)
            with ev0 ne yes show thesis by (rule request)
          qed
        qed
      qed
    qed
  qed
qed

lemma classify_events:
  "classifyCommitError E s msg = (res, out) \<Longrightarrow> GitCommit m opts \<in> set out \<Longrightarrow> False"
  by (auto simp: classifyCommitError_def Let_def split: if_splits)

lemma runCommit_commit:
  "GitCommit m' opts \<in> set (fst (snd (runCommit E r m s))) \<Longrightarrow> m' = m"
  by (cases "commit E r m (if s then [js ''-S''] else [])")
     (auto simp: runCommit_def Let_def split: option.splits prod.splits dest: classify_events)

lemma commitChanges_status: "GitStatus \<in> set (fst (snd (commitChanges E r m s)))"
  by (simp add: commitChanges_def split: sum.splits prod.splits)

lemma commitChanges_commit:
  assumes "GitCommit m' opts \<in> set (fst (snd (commitChanges E r m s)))"
  shows "m' = m"
proof (cases "status_staged E r")
  case (Inl e)
  with assms show ?thesis
    by (auto simp: commitChanges_def split: prod.splits dest: classify_events)
next
  case (Inr n)
  show ?thesis
  proof (cases "0 < n")
    case True
    with Inr assms runCommit_commit [of m' opts E r m s] show ?thesis
      by (auto simp: commitChanges_def split: prod.splits)
  next
    case False
    with Inr assms runCommit_commit [of m' opts E r m s] show ?thesis
      by (cases "diff_cached E r")
         (auto simp: commitChanges_def split: prod.splits if_splits dest: classify_events)
  qed
qed

lemma selectAndCommit_None:
  "selection E suggs answers = (ev, None) \<Longrightarrow> fst (selectAndCommit E r suggs answers) = ev"
  by (simp add: selectAndCommit_def)

lemma selectAndCommit_Some:
  "selection E suggs answers = (ev, Some req) \<Longrightarrow>
   fst (selectAndCommit E r suggs answers)
     = ev @ fst (snd (commitChanges E r (message req) (sign req)))"
  by (simp add: selectAndCommit_def split: prod.splits)

lemma beforeConfirm_simps2 [simp]:
  "\<not> beforeConfirm GitStatus" "\<not> beforeConfirm (GitCommit m opts)"
  "\<not> beforeConfirm (Asked (AskConfirm m) a)" "\<not> beforeConfirm (Asked AskSign a)"
  by simp_all

text \<open>
  Claim C1. \<open>selectAndCommit\<close> calls \<open>commitChanges\<close> only with a request whose
  message is not empty and that the operator confirmed: the last two events before
  the call are the confirmation of that very message, answered \<open>y\<close> or \<open>Y\<close>, and
  the answer to the signing question, which sets \<open>sign\<close>. A confirmation is only
  ever asked for a non-empty message, and one that is answered otherwise ends the
  run without a request. In a run that is not blocked on a question, a request is
  produced if and only if a confirmation was answered in the affirmative. The
  git operations of \<open>commitChanges\<close> appear among the events exactly when there is
  a request, and \<open>git.commit\<close> is only ever called with the confirmed message.
\<close>
theorem C1_commit_iff_confirmed:
  "(\<forall>req. snd (selection E suggs answers) = Some req \<longrightarrow>
       message req \<noteq> []
       \<and> (\<exists>ev a b. toLowerCase E a = js ''y''
            \<and> sign req = (toLowerCase E b = js ''y'')
            \<and> fst (selection E suggs answers)
                = ev @ [Asked (AskConfirm (message req)) a, Asked AskSign b]))
   \<and> (\<forall>m a. Asked (AskConfirm m) a \<in> set (fst (selection E suggs answers)) \<longrightarrow> m \<noteq> [])
   \<and> (\<forall>m a. Asked (AskConfirm m) a \<in> set (fst (selection E suggs answers))
          \<and> toLowerCase E a \<noteq> js ''y'' \<longrightarrow> snd (selection E suggs answers) = None)
   \<and> (\<not> list_ex isAwaiting (fst (selection E suggs answers)) \<longrightarrow>
        ((\<exists>req. snd (selection E suggs answers) = Some req)
          \<longleftrightarrow> (\<exists>m a. Asked (AskConfirm m) a \<in> set (fst (selection E suggs answers))
                     \<and> toLowerCase E a = js ''y'')))
   \<and> (GitStatus \<in> set (fst (selectAndCommit E r suggs answers))
        \<longleftrightarrow> (\<exists>req. snd (selection E suggs answers) = Some req))
   \<and> (\<forall>m opts. GitCommit m opts \<in> set (fst (selectAndCommit E r suggs answers)) \<longrightarrow>
          (\<exists>sg. snd (selection E suggs answers) = Some \<lparr>message = m, sign = sg\<rparr>))"
proof (cases rule: selection_cases [of E suggs answers])
  case (quiet ev0)
  have no0: "Asked (AskConfirm m) a \<notin> set ev0" "GitStatus \<notin> set ev0"
    "GitCommit m opts \<notin> set ev0" for m a opts
    using quiet(1) by auto
  show ?thesis
    unfolding selectAndCommit_None [OF quiet(2)] quiet(2) by (simp add: no0)
next
  case (blocked ev0 m)
  have no0: "Asked (AskConfirm m) a \<notin> set ev0" "GitStatus \<notin> set ev0"
    "GitCommit m opts \<notin> set ev0" for m a opts
    using blocked(1) by auto
  show ?thesis
    unfolding selectAndCommit_None [OF blocked(3)] blocked(3) by (simp add: no0)
next
  case (declined ev0 m a)
  have no0: "Asked (AskConfirm m) a \<notin> set ev0" "GitStatus \<notin> set ev0"
    "GitCommit m opts \<notin> set ev0" for m a opts
    using declined(1) by auto
  show ?thesis
    unfolding selectAndCommit_None [OF declined(4)] declined(4)
    using declined(2,3) by (auto simp: no0)
next
  case (unsigned ev0 m a)
  have no0: "Asked (AskConfirm m) a \<notin> set ev0" "GitStatus \<notin> set ev0"
    "GitCommit m opts \<notin> set ev0" for m a opts
    using unsigned(1) by auto
  show ?thesis
    unfolding selectAndCommit_None [OF unsigned(4)] unsigned(4)
    using unsigned(2,3) by (simp add: no0)
next
  case (request ev0 m a b)
  have no0: "Asked (AskConfirm m) a \<notin> set ev0" "GitStatus \<notin> set ev0"
    "GitCommit m opts \<notin> set ev0" for m a opts
    using request(1) by auto
  show ?thesis
    unfolding selectAndCommit_Some [OF request(4)] request(4)
    using request(2,3)
    by (auto simp: no0 commitChanges_status dest: commitChanges_commit)
qed


text \<open>The scenario of the specification: the second of three candidates, unsigned.\<close>
theorem C1_commit_iff_confirmed_witness:
  "selectAndCommit (sampleEnv (Text []))
     \<lparr>indexDiff = js ''+x'', commits = [], signingKey = False\<rparr>
     (Some [js ''feat(core): add x'', js ''fix(core): remove y'', js ''docs(core): note x''])
     [js ''2'', js ''y'', js ''n'']
   = (menu [js ''feat(core): add x'', js ''fix(core): remove y'', js ''docs(core): note x'']
        @ [Asked (AskChoice 5) (js ''2''), Print (YouChose (js ''fix(core): remove y'')),
           Asked (AskConfirm (js ''fix(core): remove y'')) (js ''y''),
           Asked AskSign (js ''n''),
           GitStatus, Print PlainCommit, GitCommit (js ''fix(core): remove y'') [],
           Print (CommitSucceeded (js ''fix(core): remove y'') False)],
      \<lparr>indexDiff = [], commits = [(js ''fix(core): remove y'', [])], signingKey = False\<rparr>)
   \<and> snd (selection (sampleEnv (Text []))
       (Some [js ''feat(core): add x'', js ''fix(core): remove y'', js ''docs(core): note x''])
       [js ''2'', js ''y'', js ''n''])
     = Some \<lparr>message = js ''fix(core): remove y'', sign = False\<rparr>
   \<and> js ''fix(core): remove y'' \<noteq> []"
proof -
  let ?E = "sampleEnv (Text [])"
  let ?r = "\<lparr>indexDiff = js ''+x'', commits = [], signingKey = False\<rparr>"
  let ?sugg = "[js ''feat(core): add x'', js ''fix(core): remove y'', js ''docs(core): note x'']"
  let ?ans = "[js ''2'', js ''y'', js ''n'']"
  have run: "selectAndCommit ?E ?r (Some ?sugg) ?ans
   = (menu ?sugg
        @ [Asked (AskChoice 5) (js ''2''), Print (YouChose (js ''fix(core): remove y'')),
           Asked (AskConfirm (js ''fix(core): remove y'')) (js ''y''),
           Asked AskSign (js ''n''),
           GitStatus, Print PlainCommit, GitCommit (js ''fix(core): remove y'') [],
           Print (CommitSucceeded (js ''fix(core): remove y'') False)],
      \<lparr>indexDiff = [], commits = [(js ''fix(core): remove y'', [])], signingKey = False\<rparr>)"
    by code_simp
  have sel: "snd (selection ?E (Some ?sugg) ?ans)
     = Some \<lparr>message = js ''fix(core): remove y'', sign = False\<rparr>"
    by code_simp
  have "message \<lparr>message = js ''fix(core): remove y'', sign = False\<rparr> \<noteq> []"
    using C1_commit_iff_confirmed [of ?E "Some ?sugg" ?ans ?r, THEN conjunct1, rule_format,
        OF sel]
    by (rule conjunct1)
  then have "js ''fix(core): remove y'' \<noteq> []" by simp
  with run sel show ?thesis by blast
qed


section \<open>Properties of main\<close>

lemma getStagedChanges_absent:
  assumes "\<not> revparse E r \<or> (\<exists>msg. diff_cached E r = Inl msg) \<or> diff_cached E r = Inr []"
  shows "snd (getStagedChanges E r) = None"
  using assms by (auto simp: getStagedChanges_def)

lemma getStagedChanges_events:
  "e \<in> set (fst (getStagedChanges E r)) \<Longrightarrow>
     e = GitRevparse \<or> e = GitDiffCached \<or> (\<exists>l. e = Print l)"
  by (auto simp: getStagedChanges_def split: sum.splits if_splits)

text \<open>
  Claim C5. When the directory is not a work tree, when \<open>git diff --cached\<close>
  fails, or when the staged diff is empty, \<open>getStagedChanges\<close> returns \<open>null\<close> and
  \<open>main\<close> ends after its diagnostic: no request goes to the text generator, the
  operator is asked nothing, \<open>commitChanges\<close> does not run, and the repository is
  left as it was.
\<close>
theorem C5_no_staged_changes:
  assumes "\<not> revparse E r \<or> (\<exists>msg. diff_cached E r = Inl msg) \<or> diff_cached E r = Inr []"
  shows "snd (getStagedChanges E r) = None
    \<and> main E r answers =
        (Print SearchingStagedChanges # fst (getStagedChanges E r)
           @ [Print NoStagedChangesToProcess, RlClose], r)
    \<and> (\<forall>e\<in>set (fst (main E r answers)).
          \<not> isGenerateContent e \<and> e \<noteq> GitStatus \<and> (\<forall>m opts. e \<noteq> GitCommit m opts)
          \<and> (\<forall>p a. e \<noteq> Asked p a) \<and> (\<forall>p. e \<noteq> Awaiting p))"
proof -
  have none: "snd (getStagedChanges E r) = None"
    using assms by (rule getStagedChanges_absent)
  then have run: "main E r answers =
        (Print SearchingStagedChanges # fst (getStagedChanges E r)
           @ [Print NoStagedChangesToProcess, RlClose], r)"
    by (cases "getStagedChanges E r") (simp add: main_def)
  have "\<not> isGenerateContent e \<and> e \<noteq> GitStatus \<and> (\<forall>m opts. e \<noteq> GitCommit m opts)
          \<and> (\<forall>p a. e \<noteq> Asked p a) \<and> (\<forall>p. e \<noteq> Awaiting p)"
    if "e \<in> set (fst (main E r answers))" for e
  proof -
    from that have "e = Print SearchingStagedChanges \<or> e \<in> set (fst (getStagedChanges E r))
        \<or> e = Print NoStagedChangesToProcess \<or> e = RlClose"
      unfolding run by auto
    then show ?thesis using getStagedChanges_events [of e E r] by auto
  qed
  with none run show ?thesis by blast
qed

text \<open>An empty index, whatever the generator and the operator would answer.\<close>
theorem C5_no_staged_changes_witness:
  "main (sampleEnv (Text (js ''feat(a): b'')))
     \<lparr>indexDiff = [], commits = [], signingKey = False\<rparr> [js ''1'', js ''y'', js ''n'']
   = ([Print SearchingStagedChanges, GitRevparse, GitDiffCached,
       Print NoStagedChangesToProcess, RlClose],
      \<lparr>indexDiff = [], commits = [], signingKey = False\<rparr>)"
proof -
  let ?E = "sampleEnv (Text (js ''feat(a): b''))"
  let ?r = "\<lparr>indexDiff = [], commits = [], signingKey = False\<rparr>"
  have h: "\<not> revparse ?E ?r \<or> (\<exists>msg. diff_cached ?E ?r = Inl msg) \<or> diff_cached ?E ?r = Inr []"
    by (simp add: sampleEnv_def)
  have g: "fst (getStagedChanges ?E ?r) = [GitRevparse, GitDiffCached]"
    by (simp add: getStagedChanges_def sampleEnv_def)
  show ?thesis
    using C5_no_staged_changes [OF h, of "[js ''1'', js ''y'', js ''n'']", THEN conjunct2,
        THEN conjunct1]
    unfolding g by simp
qed

end
